theory Spec2Isabelle
  imports Complex_Main "HOL-Library.Word" "HOL-Library.Log_Nat"
begin

section \<open>Exceptions and tensors\<close>

text \<open>
  The Python exceptions that the modelled statements can raise. A failing call returns
  \<open>Inl e\<close>, a successful one \<open>Inr v\<close>. The last two constructors are the error names
  used by the written specification; no statement of \<^verbatim>\<open>databunch/dataset.py\<close> raises them.
\<close>

datatype exn =
    AssertionError
  | ValueError
  | TypeError
  | IndexError
  | KeyError
  | RuntimeError
  | ConfigurationError
  | ShapeMismatchError

text \<open>
  A tensor (or an array) is its shape together with its elements in row-major order.
  The element type stands for the dtype: \<open>rat tensor\<close> for float tensors (the values
  are idealised as exact rationals), \<open>int64 tensor\<close> for \<^verbatim>\<open>dtype=th.int64\<close>.
\<close>

type_synonym int64 = "64 word"

record 'a tensor =
  shape :: "nat list"
  elems :: "'a list"

text \<open>
  \<^verbatim>\<open>th.stack(ts, dim=0)\<close>: raises \<^verbatim>\<open>RuntimeError\<close> on an empty list and when two tensors
  differ in shape; otherwise the result has a new leading dimension of size \<open>length ts\<close>.
\<close>

fun th_stack :: "'a tensor list \<Rightarrow> exn + 'a tensor" where
  "th_stack [] = Inl RuntimeError"
| "th_stack (t # ts) =
     (if list_all (\<lambda>u. shape u = shape t) ts
      then Inr \<lparr>shape = length (t # ts) # shape t, elems = concat (map elems (t # ts))\<rparr>
      else Inl RuntimeError)"

text \<open>
  \<^verbatim>\<open>[f(x) for x in xs]\<close> where \<open>f\<close> may raise: the comprehension stops at the first
  element on which \<open>f\<close> raises.
\<close>

fun list_comp :: "('a \<Rightarrow> exn + 'b) \<Rightarrow> 'a list \<Rightarrow> exn + 'b list" where
  "list_comp f [] = Inr []"
| "list_comp f (x # xs) =
     (case f x of
        Inl e \<Rightarrow> Inl e
      | Inr y \<Rightarrow> (case list_comp f xs of Inl e \<Rightarrow> Inl e | Inr ys \<Rightarrow> Inr (y # ys)))"

section \<open>Video, Label and collate\<close>

text \<open>
  The classes \<^verbatim>\<open>Video\<close> and \<^verbatim>\<open>Label\<close> as \<^verbatim>\<open>collate\<close> reads them: a video carries the list
  of its frame tensors in \<^verbatim>\<open>data\<close>, a label the integer class id in \<^verbatim>\<open>data\<close>
  (\<^verbatim>\<open>self.data = meta.template_id\<close> in \<^verbatim>\<open>pipeline/label.py\<close>). Class ids are values of an
  int64 column of the metadata table, hence the type. The remaining attributes of both
  classes are the polymorphic \<open>meta\<close> part.
\<close>

record 'm Video =
  Video_meta :: 'm
  Video_data :: "rat tensor list"

record 'm Label =
  Label_meta :: 'm
  Label_data :: int64

text \<open>
  \<^verbatim>\<open>videos, labels = zip(*batch)\<close>. On a list of pairs \<^verbatim>\<open>zip(*batch)\<close> yields the tuple of
  first components and the tuple of second components; on the empty list it yields
  nothing, and unpacking into two names raises \<^verbatim>\<open>ValueError\<close>.
\<close>

definition zip_star :: "('a \<times> 'b) list \<Rightarrow> ('a list \<times> 'b list) option" where
  "zip_star batch = (if batch = [] then None else Some (map fst batch, map snd batch))"

definition unpack2 :: "('a list \<times> 'b list) option \<Rightarrow> exn + ('a list \<times> 'b list)" where
  "unpack2 z = (case z of None \<Rightarrow> Inl ValueError | Some p \<Rightarrow> Inr p)"

text \<open>\<^verbatim>\<open>th.tensor([label.data for label in labels], dtype=th.int64)\<close>\<close>

definition th_tensor :: "'a list \<Rightarrow> 'a tensor" where
  "th_tensor xs = \<lparr>shape = [length xs], elems = xs\<rparr>"

definition collate ::
  "('m Video \<times> 'm Label) list \<Rightarrow>
     exn + (rat tensor \<times> int64 tensor \<times> 'm Video list \<times> 'm Label list)" where
  "collate batch =
     (case unpack2 (zip_star batch) of
        Inl e \<Rightarrow> Inl e
      | Inr (videos, labels) \<Rightarrow>
          (case list_comp (\<lambda>video. th_stack (Video_data video)) videos of
             Inl e \<Rightarrow> Inl e
           | Inr stacked \<Rightarrow>
               (case th_stack stacked of
                  Inl e \<Rightarrow> Inl e
                | Inr videos_data \<Rightarrow>
                    Inr (videos_data, th_tensor (map Label_data labels), videos, labels))))"

section \<open>The metadata table\<close>

text \<open>
  The metadata table is a pandas DataFrame: a list of rows in table order, each with its
  index label. Of the columns only \<^verbatim>\<open>lid\<close> and \<^verbatim>\<open>label\<close> are read by the constructor.
  \<^verbatim>\<open>hp.read_meta\<close> is file input; the table it returns is an argument of the model.
\<close>

record meta_row =
  lid :: int64
  label :: string

type_synonym table = "(int64 \<times> meta_row) list"

text \<open>\<^verbatim>\<open>Series.unique()\<close>: the distinct values in order of first appearance.\<close>

fun unique :: "'a list \<Rightarrow> 'a list" where
  "unique [] = []"
| "unique (x # xs) = x # unique (filter (\<lambda>y. y \<noteq> x) xs)"

text \<open>
  \<^verbatim>\<open>meta.groupby('lid')['label'].head(1)\<close>: \<^verbatim>\<open>head\<close> filters the rows and keeps their
  index labels and their order, so the result is the Series of the \<^verbatim>\<open>label\<close> values of
  those rows that are the first of their class, indexed by the index labels of the table
  (not by \<^verbatim>\<open>lid\<close>). The accumulator holds the class ids met so far.
\<close>

fun groupby_head1 :: "int64 list \<Rightarrow> table \<Rightarrow> (int64 \<times> string) list" where
  "groupby_head1 seen [] = []"
| "groupby_head1 seen ((i, r) # rows) =
     (if lid r \<in> set seen then groupby_head1 seen rows
      else (i, label r) # groupby_head1 (lid r # seen) rows)"

text \<open>
  \<^verbatim>\<open>series.reset_index().set_index('label')\<close>: the former index becomes the one data
  column and the labels become the index.
\<close>

definition reset_set_index :: "(int64 \<times> string) list \<Rightarrow> (string \<times> int64) list" where
  "reset_set_index s = map (\<lambda>(i, l). (l, i)) s"

text \<open>
  Lookup by index label (\<^verbatim>\<open>series[key]\<close>, \<^verbatim>\<open>frame.loc[key]\<close>): the values of all entries
  with that label, \<^verbatim>\<open>KeyError\<close> when there is none.
\<close>

definition loc :: "('k \<times> 'v) list \<Rightarrow> 'k \<Rightarrow> exn + 'v list" where
  "loc s key =
     (case filter (\<lambda>(k, v). k = key) s of
        [] \<Rightarrow> Inl KeyError
      | e # es \<Rightarrow> Inr (map snd (e # es)))"

text \<open>
  Positional slicing \<^verbatim>\<open>xs.iloc[0:k]\<close> with an integer bound (a negative bound counts
  from the end), and positional access \<^verbatim>\<open>xs.iloc[i]\<close>.
\<close>

definition iloc_slice0 :: "int \<Rightarrow> 'a list \<Rightarrow> 'a list" where
  "iloc_slice0 k xs = (if k < 0 then take (length xs - nat (- k)) xs else take (nat k) xs)"

definition iloc :: "'a list \<Rightarrow> int \<Rightarrow> exn + 'a" where
  "iloc xs i =
     (let n = int (length xs); j = (if i < 0 then n + i else i)
      in if 0 \<le> j \<and> j < n then Inr (xs ! nat j) else Inl IndexError)"

text \<open>
  A Python number is an \<^verbatim>\<open>int\<close> or a \<^verbatim>\<open>float\<close>. A float is an IEEE 754 double and is
  represented by its exact rational value. \<^verbatim>\<open>round(x)\<close> rounds to the nearest integer, a
  tie to the even one.
\<close>

datatype number = PyInt int | PyFloat rat

fun num_val :: "number \<Rightarrow> rat" where
  "num_val (PyInt i) = of_int i"
| "num_val (PyFloat x) = x"

definition py_round :: "rat \<Rightarrow> int" where
  "py_round x =
     (let f = \<lfloor>x\<rfloor>; d = x - of_int f
      in if d < 1 / 2 then f else if 1 / 2 < d then f + 1 else if even f then f else f + 1)"

text \<open>
  Double arithmetic. \<open>ilog2 x\<close> is the binary exponent of a positive rational \<open>x\<close>
  (the floor of its logarithm to base 2), found from the bit lengths of numerator and
  denominator. \<open>quantum x\<close> is the spacing of the doubles around \<open>x\<close>: 53 significant
  bits, and the fixed spacing \<open>2 powi - 1074\<close> in the subnormal range. \<open>round_double\<close>
  is the rounding of every arithmetic result to the nearest double, a tie to the even
  significand. Overflow is left out: it needs a magnitude of \<open>2 ^ 1024\<close>, and the only
  values formed here are a row count and its product with a \<^verbatim>\<open>keep\<close> below 1.
\<close>

definition ilog2 :: "rat \<Rightarrow> int" where
  "ilog2 x =
     (let (p, q) = quotient_of x; d = bitlen p - bitlen q
      in if power_int 2 d \<le> x then d else d - 1)"

definition quantum :: "rat \<Rightarrow> rat" where
  "quantum x = power_int 2 (max (ilog2 \<bar>x\<bar>) (- 1022) - 52)"

definition round_double :: "rat \<Rightarrow> rat" where
  "round_double x = (if x = 0 then 0 else quantum x * of_int (py_round (x / quantum x)))"

text \<open>
  A float literal denotes the double nearest to its decimal value. In
  \<^verbatim>\<open>len(class_meta) * keep\<close> an \<^verbatim>\<open>int\<close> factor \<^verbatim>\<open>keep\<close> gives the exact integer product;
  with a \<^verbatim>\<open>float\<close> factor the length is converted to a double and the product is rounded
  to a double. \<^verbatim>\<open>round\<close> of an \<^verbatim>\<open>int\<close> is that \<^verbatim>\<open>int\<close>.
\<close>

definition py_float :: "rat \<Rightarrow> number" where
  "py_float x = PyFloat (round_double x)"

fun py_mul_len :: "nat \<Rightarrow> number \<Rightarrow> number" where
  "py_mul_len n (PyInt i) = PyInt (int n * i)"
| "py_mul_len n (PyFloat x) = PyFloat (round_double (round_double (of_nat n) * x))"

fun round_number :: "number \<Rightarrow> int" where
  "round_number (PyInt i) = i"
| "round_number (PyFloat x) = py_round x"

text \<open>
  \<^verbatim>\<open>pd.concat(samples, verify_integrity=True)\<close>: raises \<^verbatim>\<open>ValueError\<close> when there is
  nothing to concatenate and when the concatenated index holds a label twice.
\<close>

definition pd_concat_verify :: "table list \<Rightarrow> exn + table" where
  "pd_concat_verify samples =
     (if samples = [] then Inl ValueError
      else if distinct (map fst (concat samples)) then Inr (concat samples)
      else Inl ValueError)"

text \<open>
  \<^verbatim>\<open>_stratified_sample_meta\<close>. \<open>column_lid\<close> is \<^verbatim>\<open>meta['lid']\<close>, \<open>class_rows\<close> is
  \<^verbatim>\<open>meta[meta['lid'] == lid]\<close>, \<open>cut_off\<close> is \<^verbatim>\<open>round(len(class_meta) * keep)\<close>.
\<close>

definition column_lid :: "table \<Rightarrow> int64 list" where
  "column_lid meta = map (\<lambda>(i, r). lid r) meta"

definition class_rows :: "int64 \<Rightarrow> table \<Rightarrow> table" where
  "class_rows l meta = filter (\<lambda>(i, r). lid r = l) meta"

definition cut_off :: "number \<Rightarrow> table \<Rightarrow> int64 \<Rightarrow> int" where
  "cut_off keep meta l = round_number (py_mul_len (length (class_rows l meta)) keep)"

definition class_meta_sample :: "number \<Rightarrow> table \<Rightarrow> int64 \<Rightarrow> table" where
  "class_meta_sample keep meta l = iloc_slice0 (cut_off keep meta l) (class_rows l meta)"

definition stratified_sample_meta :: "number \<Rightarrow> table \<Rightarrow> exn + table" where
  "stratified_sample_meta keep meta =
     pd_concat_verify (map (class_meta_sample keep meta) (unique (column_lid meta)))"

text \<open>
  The subsetting step of the constructor: the stratified branch when \<^verbatim>\<open>0 <= keep < 1\<close>,
  otherwise \<^verbatim>\<open>meta.iloc[0:keep]\<close>, which pandas rejects with \<^verbatim>\<open>TypeError\<close> when the
  bound is a float.
\<close>

definition apply_keep :: "number option \<Rightarrow> table \<Rightarrow> exn + table" where
  "apply_keep keep meta =
     (case keep of
        None \<Rightarrow> Inr meta
      | Some k \<Rightarrow>
          if 0 \<le> num_val k \<and> num_val k < 1 then stratified_sample_meta k meta
          else (case k of PyInt n \<Rightarrow> Inr (iloc_slice0 n meta) | PyFloat x \<Rightarrow> Inl TypeError))"

section \<open>The augmentation sequence\<close>

datatype position = Uniform | Center

datatype augmenter =
    PadToFixedSize nat nat position
  | CropToFixedSize nat nat position
  | Fliplr rat
  | Flipud rat
  | Add int int
  | AddToHueAndSaturation int int

section \<open>VideoDataset\<close>

record DataSetOptions =
  meta_path :: string
  root_path :: string
  read_jpeg :: bool
  setting :: string
  keep :: "number option"

record SamplingOptions =
  num_segments :: nat

record VideoDataset_attrs =
  cut :: rat
  frame_size :: int
  data_opts :: DataSetOptions
  sampling_opts :: SamplingOptions
  meta :: table
  lids :: "int64 list"
  lid2labels :: "(int64 \<times> string) list"
  labels2lid :: "(string \<times> int64) list"

record VideoDataset = VideoDataset_attrs +
  aug_seq :: "augmenter list"

text \<open>
  \<^verbatim>\<open>_compose_aug_seq\<close> is called on the object whose other attributes are already set.
  imgaug places padding and cropping uniformly at random unless \<^verbatim>\<open>position\<close> is given.
\<close>

definition compose_aug_seq :: "'a VideoDataset_attrs_scheme \<Rightarrow> augmenter list" where
  "compose_aug_seq self =
     (if setting (data_opts self) = ''train'' then
        [PadToFixedSize 224 224 Uniform,
         CropToFixedSize 224 224 Uniform,
         Fliplr (1 / 2),
         Flipud (1 / 2),
         Add (- 25) 25,
         AddToHueAndSaturation (- 25) 25]
      else
        [PadToFixedSize 224 224 Center,
         CropToFixedSize 224 224 Center])"

text \<open>
  \<^verbatim>\<open>VideoDataset.__init__\<close>; the last argument is the table returned by
  \<^verbatim>\<open>hp.read_meta(data_opts.meta_path)\<close>. A failing \<^verbatim>\<open>assert\<close> raises \<^verbatim>\<open>AssertionError\<close>.
\<close>

definition VideoDataset_init ::
  "rat \<Rightarrow> int \<Rightarrow> DataSetOptions \<Rightarrow> SamplingOptions \<Rightarrow> table \<Rightarrow> exn + VideoDataset" where
  "VideoDataset_init cut_arg frame_size_arg data_opts_arg sampling_opts_arg read_meta =
     (if \<not> (0 \<le> cut_arg \<and> cut_arg \<le> 1) then Inl AssertionError
      else if setting data_opts_arg \<notin> set [''train'', ''eval''] then Inl AssertionError
      else
        (let lids_v = unique (column_lid read_meta);
             lid2labels_v = groupby_head1 [] read_meta;
             labels2lid_v = reset_set_index lid2labels_v
         in case apply_keep (keep data_opts_arg) read_meta of
              Inl e \<Rightarrow> Inl e
            | Inr meta_v \<Rightarrow>
                (let self = \<lparr>cut = cut_arg, frame_size = frame_size_arg,
                              data_opts = data_opts_arg, sampling_opts = sampling_opts_arg,
                              meta = meta_v, lids = lids_v, lid2labels = lid2labels_v,
                              labels2lid = labels2lid_v\<rparr>
                 in Inr (VideoDataset_attrs.extend self
                           (VideoDataset.fields (compose_aug_seq self))))))"

definition len :: "VideoDataset \<Rightarrow> nat" where
  "len self = length (meta self)"

section \<open>Augmenting the frames of one sample\<close>

text \<open>
  A decoded frame is a uint8 array of shape \<open>[H, W, C]\<close>. \<^verbatim>\<open>F.to_tensor\<close> turns it into a
  float tensor of shape \<open>[C, H, W]\<close> with every byte divided by 255; a two-dimensional
  array gets one channel, any other rank raises \<^verbatim>\<open>ValueError\<close>.
\<close>

type_synonym ndarray = "8 word tensor"

definition hwc_to_chw :: "nat \<Rightarrow> nat \<Rightarrow> nat \<Rightarrow> 8 word list \<Rightarrow> rat tensor" where
  "hwc_to_chw h w c xs =
     \<lparr>shape = [c, h, w],
      elems = map (\<lambda>(k, i, j). of_nat (unat (xs ! ((i * w + j) * c + k))) / 255)
                (List.product [0..<c] (List.product [0..<h] [0..<w]))\<rparr>"

definition to_tensor :: "ndarray \<Rightarrow> exn + rat tensor" where
  "to_tensor pic =
     (case shape pic of
        [h, w] \<Rightarrow> Inr (hwc_to_chw h w 1 (elems pic))
      | [h, w, c] \<Rightarrow> Inr (hwc_to_chw h w c (elems pic))
      | _ \<Rightarrow> Inl ValueError)"

text \<open>
  The imgaug library is not part of the repository; its random generator and its image
  operations are parameters of the model. \<open>ia_derive\<close> draws the generator of a
  deterministic copy from the global generator, \<open>ia_sample\<close> draws the random parameters
  of one pass through the child augmenters (crop and pad offsets, flip decisions,
  brightness and hue/saturation shifts), \<open>ia_apply\<close> transforms one image with them.
\<close>

record ('r, 'p) imgaug =
  ia_derive :: "'r \<Rightarrow> 'r \<times> 'r"
  ia_sample :: "augmenter list \<Rightarrow> 'r \<Rightarrow> 'p \<times> 'r"
  ia_apply :: "augmenter list \<Rightarrow> 'p \<Rightarrow> ndarray \<Rightarrow> ndarray"

record 'r Sequential =
  children :: "augmenter list"
  deterministic :: bool
  random_state :: 'r

text \<open>
  \<^verbatim>\<open>seq.to_deterministic()\<close> copies the augmenter, marks the copy deterministic and gives
  it a generator drawn from the global one. \<^verbatim>\<open>augment_image\<close> draws the parameters from
  the augmenter's generator; a deterministic augmenter restores its generator after the
  call, any other keeps the advanced one.
\<close>

definition to_deterministic ::
  "('r, 'p) imgaug \<Rightarrow> augmenter list \<Rightarrow> 'r \<Rightarrow> 'r Sequential \<times> 'r" where
  "to_deterministic lib seq g =
     (let (r, g') = ia_derive lib g
      in (\<lparr>children = seq, deterministic = True, random_state = r\<rparr>, g'))"

definition params_of :: "('r, 'p) imgaug \<Rightarrow> 'r Sequential \<Rightarrow> 'p" where
  "params_of lib seq = fst (ia_sample lib (children seq) (random_state seq))"

definition augment_image ::
  "('r, 'p) imgaug \<Rightarrow> 'r Sequential \<Rightarrow> ndarray \<Rightarrow> ndarray \<times> 'r Sequential" where
  "augment_image lib seq img =
     (let (p, r') = ia_sample lib (children seq) (random_state seq)
      in (ia_apply lib (children seq) p img,
          if deterministic seq then seq else seq\<lparr>random_state := r'\<rparr>))"

text \<open>
  The comprehension of \<^verbatim>\<open>aug\<close>: the same augmenter object is called on one frame after
  the other. \<open>applied_params\<close> lists the parameters these calls use, frame by frame.
\<close>

fun augment_frames ::
  "('r, 'p) imgaug \<Rightarrow> 'r Sequential \<Rightarrow> ndarray list \<Rightarrow> exn + rat tensor list" where
  "augment_frames lib seq [] = Inr []"
| "augment_frames lib seq (frame_data # rest) =
     (case to_tensor (fst (augment_image lib seq frame_data)) of
        Inl e \<Rightarrow> Inl e
      | Inr t \<Rightarrow>
          (case augment_frames lib (snd (augment_image lib seq frame_data)) rest of
             Inl e \<Rightarrow> Inl e
           | Inr ts \<Rightarrow> Inr (t # ts)))"

fun applied_params :: "('r, 'p) imgaug \<Rightarrow> 'r Sequential \<Rightarrow> ndarray list \<Rightarrow> 'p list" where
  "applied_params lib seq [] = []"
| "applied_params lib seq (frame_data # rest) =
     params_of lib seq # applied_params lib (snd (augment_image lib seq frame_data)) rest"

definition aug ::
  "('r, 'p) imgaug \<Rightarrow> VideoDataset \<Rightarrow> 'r \<Rightarrow> ndarray list \<Rightarrow> (exn + rat tensor list) \<times> 'r" where
  "aug lib self g video_data =
     (let (det_aug_seq, g') = to_deterministic lib (aug_seq self) g
      in (augment_frames lib det_aug_seq video_data, g'))"

text \<open>
  \<^verbatim>\<open>__getitem__\<close>. The class \<^verbatim>\<open>Video\<close> (frame sampling and decoding) is not among the
  sources; its constructor is the parameter \<open>Video_init\<close>, which returns the decoded
  frames or raises. \<^verbatim>\<open>Label(video_meta).data\<close> is the class id of the row. The global
  imgaug generator is passed in and returned.
\<close>

definition getitem ::
  "('r, 'p) imgaug \<Rightarrow>
   (meta_row \<Rightarrow> string \<Rightarrow> bool \<Rightarrow> rat \<Rightarrow> string \<Rightarrow> nat \<Rightarrow> exn + ndarray list) \<Rightarrow>
   VideoDataset \<Rightarrow> 'r \<Rightarrow> int \<Rightarrow> exn + (meta_row Video \<times> meta_row Label \<times> 'r)" where
  "getitem lib Video_init self g item =
     (case iloc (meta self) item of
        Inl e \<Rightarrow> Inl e
      | Inr (i, video_meta) \<Rightarrow>
          (case Video_init video_meta (root_path (data_opts self)) (read_jpeg (data_opts self))
                  (cut self) (setting (data_opts self)) (num_segments (sampling_opts self)) of
             Inl e \<Rightarrow> Inl e
           | Inr frames \<Rightarrow>
               (case aug lib self g frames of
                  (Inl e, g') \<Rightarrow> Inl e
                | (Inr tensors, g') \<Rightarrow>
                    Inr (\<lparr>Video_meta = video_meta, Video_data = tensors\<rparr>,
                         \<lparr>Label_meta = video_meta, Label_data = lid video_meta\<rparr>, g'))))"

section \<open>The augmentation sequence as the specification words it\<close>

text \<open>
  The specification asks for padding and cropping at \<open>frame_size \<times> frame_size\<close>. This is
  that sequence, for comparison with \<open>compose_aug_seq\<close>; the jitter ranges are those of
  the source.
\<close>

definition claimed_aug_seq :: "int \<Rightarrow> string \<Rightarrow> augmenter list" where
  "claimed_aug_seq fs st =
     (if st = ''train'' then
        [PadToFixedSize (nat fs) (nat fs) Uniform,
         CropToFixedSize (nat fs) (nat fs) Uniform,
         Fliplr (1 / 2),
         Flipud (1 / 2),
         Add (- 25) 25,
         AddToHueAndSaturation (- 25) 25]
      else
        [PadToFixedSize (nat fs) (nat fs) Center,
         CropToFixedSize (nat fs) (nat fs) Center])"

section \<open>Concrete inputs\<close>

text \<open>
  A table with the default index \<open>0, 1, 2\<close>: two rows of class 5 and one row of class
  9. A table whose two rows carry the same index label. A table of five rows of one
  class. Options, the dataset object
  that the constructor builds from the first table (its \<open>meta\<close> left open), a one-pixel
  frame, and an instance of the imgaug parameters in which the generator is a
  counter and the drawn parameter is added to every byte.
\<close>

definition ex_table :: table where
  "ex_table =
     [(0, \<lparr>lid = 5, label = ''pushing''\<rparr>),
      (1, \<lparr>lid = 5, label = ''pushing''\<rparr>),
      (2, \<lparr>lid = 9, label = ''lifting''\<rparr>)]"



definition ex_opts :: "string \<Rightarrow> number option \<Rightarrow> DataSetOptions" where
  "ex_opts st k =
     \<lparr>meta_path = ''meta.json'', root_path = ''frames'', read_jpeg = True,
      setting = st, keep = k\<rparr>"

definition ex_sampling :: SamplingOptions where
  "ex_sampling = \<lparr>num_segments = 4\<rparr>"

definition ex_dataset :: "string \<Rightarrow> int \<Rightarrow> number option \<Rightarrow> table \<Rightarrow> VideoDataset" where
  "ex_dataset st fs k rows =
     \<lparr>cut = 1, frame_size = fs, data_opts = ex_opts st k, sampling_opts = ex_sampling,
      meta = rows, lids = [5, 9],
      lid2labels = [(0, ''pushing''), (2, ''lifting'')],
      labels2lid = [(''pushing'', 0), (''lifting'', 2)],
      aug_seq =
        (if st = ''train'' then
           [PadToFixedSize 224 224 Uniform, CropToFixedSize 224 224 Uniform,
            Fliplr (1 / 2), Flipud (1 / 2), Add (- 25) 25, AddToHueAndSaturation (- 25) 25]
         else
           [PadToFixedSize 224 224 Center, CropToFixedSize 224 224 Center])\<rparr>"

definition ex_frame :: "8 word \<Rightarrow> ndarray" where
  "ex_frame b = \<lparr>shape = [1, 1, 1], elems = [b]\<rparr>"

definition ex_imgaug :: "(nat, nat) imgaug" where
  "ex_imgaug =
     \<lparr>ia_derive = (\<lambda>g. (g, Suc g)),
      ia_sample = (\<lambda>cs r. (r, Suc r)),
      ia_apply = (\<lambda>cs p img. img\<lparr>elems := map (\<lambda>b. b + of_nat p) (elems img)\<rparr>)\<rparr>"

definition ex_Video_init ::
  "meta_row \<Rightarrow> string \<Rightarrow> bool \<Rightarrow> rat \<Rightarrow> string \<Rightarrow> nat \<Rightarrow> exn + ndarray list" where
  "ex_Video_init video_meta rootp jpeg c st n = Inr (map ex_frame (replicate n 10))"

definition ex_tensor :: "nat list \<Rightarrow> rat tensor" where
  "ex_tensor sh = \<lparr>shape = sh, elems = replicate (prod_list sh) 0\<rparr>"

definition ex_sample :: "nat \<Rightarrow> nat list \<Rightarrow> int64 \<Rightarrow> unit Video \<times> unit Label" where
  "ex_sample t sh l =
     (\<lparr>Video_meta = (), Video_data = replicate t (ex_tensor sh)\<rparr>,
      \<lparr>Label_meta = (), Label_data = l\<rparr>)"

section \<open>Properties of collate\<close>

lemma th_stack_error: "th_stack ts = Inl e \<Longrightarrow> e = RuntimeError"
  by (cases ts) (auto split: if_splits)

lemma th_stack_Inr_shape: "th_stack ts = Inr r \<Longrightarrow> shape r = length ts # shape (hd ts)"
  by (cases ts) (auto split: if_splits)

lemma th_stack_Inr_all:
  "th_stack ts = Inr r \<Longrightarrow> u \<in> set ts \<Longrightarrow> shape u = shape (hd ts)"
  by (cases ts) (auto split: if_splits simp: list_all_iff)

lemma th_stack_uniform:
  assumes "ts \<noteq> []" and "\<forall>u\<in>set ts. shape u = s"
  shows "th_stack ts = Inr \<lparr>shape = length ts # s, elems = concat (map elems ts)\<rparr>"
  using assms by (cases ts) (auto simp: list_all_iff)

lemma list_comp_error:
  assumes "list_comp f xs = Inl e" and "\<And>x e'. f x = Inl e' \<Longrightarrow> e' = RuntimeError"
  shows "e = RuntimeError"
  using assms by (induction xs arbitrary: e) (auto split: sum.splits)

lemma list_comp_Inr:
  "list_comp f xs = Inr ys \<Longrightarrow> list_all2 (\<lambda>x y. f x = Inr y) xs ys"
  by (induction xs arbitrary: ys) (auto split: sum.splits)

lemma list_comp_map:
  "(\<And>x. x \<in> set xs \<Longrightarrow> f x = Inr (g x)) \<Longrightarrow> list_comp f xs = Inr (map g xs)"
  by (induction xs) auto

lemma collate_error_nonempty:
  assumes "batch \<noteq> []" and "collate batch = Inl e"
  shows "e = RuntimeError"
  using assms
  by (auto simp: collate_def unpack2_def zip_star_def split: sum.splits
           dest: th_stack_error list_comp_error [where f = "\<lambda>video. th_stack (Video_data video)"])

text \<open>
  Claim C9. \<^verbatim>\<open>collate\<close> needs a non-empty batch. On the empty list the unpacking of
  \<^verbatim>\<open>zip(*batch)\<close> raises, so \<^verbatim>\<open>collate\<close> fails with \<^verbatim>\<open>ValueError\<close> instead of returning
  empty tensors. On a non-empty batch \<^verbatim>\<open>collate\<close> does not fail with that error: the
  unpacking yields the two sequences \<open>videos\<close> and \<open>labels\<close>, each as long as the batch,
  and \<^verbatim>\<open>collate\<close> is the stacking of exactly these. Whenever \<^verbatim>\<open>collate\<close> returns, the batch
  was non-empty and the two sequences it passes on are as long as the batch.
\<close>

theorem collate_empty_fails_nonempty_unpacks:
  fixes batch :: "('m Video \<times> 'm Label) list"
  shows "collate ([] :: ('m Video \<times> 'm Label) list) = Inl ValueError \<and>
         (batch \<noteq> [] \<longrightarrow>
            collate batch \<noteq> Inl ValueError \<and>
            (\<exists>videos labels.
               unpack2 (zip_star batch) = Inr (videos, labels) \<and>
               length videos = length batch \<and> length labels = length batch \<and>
               collate batch =
                 (case list_comp (\<lambda>video. th_stack (Video_data video)) videos of
                    Inl e \<Rightarrow> Inl e
                  | Inr stacked \<Rightarrow>
                      (case th_stack stacked of
                         Inl e \<Rightarrow> Inl e
                       | Inr videos_data \<Rightarrow>
                           Inr (videos_data, th_tensor (map Label_data labels),
                                videos, labels))))) \<and>
         (collate batch = Inr (stacked_videos, stacked_labels, vs, ls) \<longrightarrow>
            batch \<noteq> [] \<and> vs = map fst batch \<and> ls = map snd batch \<and>
            length vs = length batch \<and> length ls = length batch)"
proof -
  have A: "collate ([] :: ('m Video \<times> 'm Label) list) = Inl ValueError"
    by (simp add: collate_def unpack2_def zip_star_def)
  have B: "batch \<noteq> [] \<longrightarrow>
            collate batch \<noteq> Inl ValueError \<and>
            (\<exists>videos labels.
               unpack2 (zip_star batch) = Inr (videos, labels) \<and>
               length videos = length batch \<and> length labels = length batch \<and>
               collate batch =
                 (case list_comp (\<lambda>video. th_stack (Video_data video)) videos of
                    Inl e \<Rightarrow> Inl e
                  | Inr stacked \<Rightarrow>
                      (case th_stack stacked of
                         Inl e \<Rightarrow> Inl e
                       | Inr videos_data \<Rightarrow>
                           Inr (videos_data, th_tensor (map Label_data labels),
                                videos, labels))))"
  proof
    assume ne: "batch \<noteq> []"
    have "collate batch \<noteq> Inl ValueError"
    proof
      assume "collate batch = Inl ValueError"
      from collate_error_nonempty [OF ne this] show False by simp
    qed
    moreover from ne have "\<exists>videos labels.
               unpack2 (zip_star batch) = Inr (videos, labels) \<and>
               length videos = length batch \<and> length labels = length batch \<and>
               collate batch =
                 (case list_comp (\<lambda>video. th_stack (Video_data video)) videos of
                    Inl e \<Rightarrow> Inl e
                  | Inr stacked \<Rightarrow>
                      (case th_stack stacked of
                         Inl e \<Rightarrow> Inl e
                       | Inr videos_data \<Rightarrow>
                           Inr (videos_data, th_tensor (map Label_data labels),
                                videos, labels)))"
      by (simp add: collate_def unpack2_def zip_star_def)
    ultimately show "collate batch \<noteq> Inl ValueError \<and>
            (\<exists>videos labels.
               unpack2 (zip_star batch) = Inr (videos, labels) \<and>
               length videos = length batch \<and> length labels = length batch \<and>
               collate batch =
                 (case list_comp (\<lambda>video. th_stack (Video_data video)) videos of
                    Inl e \<Rightarrow> Inl e
                  | Inr stacked \<Rightarrow>
                      (case th_stack stacked of
                         Inl e \<Rightarrow> Inl e
                       | Inr videos_data \<Rightarrow>
                           Inr (videos_data, th_tensor (map Label_data labels),
                                videos, labels))))"
      by (rule conjI)
  qed
  have C: "collate batch = Inr (stacked_videos, stacked_labels, vs, ls) \<longrightarrow>
            batch \<noteq> [] \<and> vs = map fst batch \<and> ls = map snd batch \<and>
            length vs = length batch \<and> length ls = length batch"
  proof
    assume r: "collate batch = Inr (stacked_videos, stacked_labels, vs, ls)"
    then have ne: "batch \<noteq> []"
      by (auto simp: collate_def unpack2_def zip_star_def)
    with r have "vs = map fst batch" and "ls = map snd batch"
      by (auto simp: collate_def unpack2_def zip_star_def split: sum.splits)
    with ne show "batch \<noteq> [] \<and> vs = map fst batch \<and> ls = map snd batch \<and>
              length vs = length batch \<and> length ls = length batch"
      by simp
  qed
  show ?thesis by (rule conjI [OF A conjI [OF B C]])
qed

theorem collate_empty_fails_nonempty_unpacks_witness:
  "collate ([] :: (unit Video \<times> unit Label) list) = Inl ValueError \<and>
   [ex_sample 2 [3, 1, 1] 7] \<noteq> [] \<and>
   collate [ex_sample 2 [3, 1, 1] 7] \<noteq> Inl ValueError \<and>
   (\<exists>videos labels.
      unpack2 (zip_star [ex_sample 2 [3, 1, 1] 7]) = Inr (videos, labels) \<and>
      length videos = length [ex_sample 2 [3, 1, 1] 7] \<and>
      length labels = length [ex_sample 2 [3, 1, 1] 7] \<and>
      collate [ex_sample 2 [3, 1, 1] 7] =
        (case list_comp (\<lambda>video. th_stack (Video_data video)) videos of
           Inl e \<Rightarrow> Inl e
         | Inr stacked \<Rightarrow>
             (case th_stack stacked of
                Inl e \<Rightarrow> Inl e
              | Inr videos_data \<Rightarrow>
                  Inr (videos_data, th_tensor (map Label_data labels), videos, labels))))"
proof -
  have h: "[ex_sample 2 [3, 1, 1] 7] \<noteq> []" by simp
  note T = collate_empty_fails_nonempty_unpacks [of "[ex_sample 2 [3, 1, 1] 7]"]
  from h T [THEN conjunct1] T [THEN conjunct2, THEN conjunct1, THEN mp, OF h]
  show ?thesis by blast
qed

text \<open>
  Claim C6. For a non-empty batch of \<open>B\<close> samples whose videos all hold \<open>T\<close> frames
  (\<open>T\<close> at least one, so that there is a frame size to speak of) of the one shape
  \<open>[C, H, W]\<close>, \<^verbatim>\<open>collate\<close> returns the stacked video tensor: its shape is
  \<open>[B, T, C, H, W]\<close> and its elements are the elements of the frames, video after video
  and frame after frame. It returns an int64 label tensor of shape \<open>[B]\<close> that holds the
  class ids in batch order, and the videos and labels themselves, unchanged and in batch
  order.
\<close>

theorem collate_shapes:
  fixes batch :: "('m Video \<times> 'm Label) list"
  assumes "batch \<noteq> []" and "T > 0"
    and "\<forall>(video, label) \<in> set batch.
           length (Video_data video) = T \<and>
           (\<forall>frame \<in> set (Video_data video). shape frame = [C, H, W])"
  shows "\<exists>videos_data labels_data.
           collate batch = Inr (videos_data, labels_data, map fst batch, map snd batch) \<and>
           shape videos_data = [length batch, T, C, H, W] \<and>
           elems videos_data =
             concat (map (\<lambda>(video, label). concat (map elems (Video_data video))) batch) \<and>
           shape labels_data = [length batch] \<and>
           elems labels_data = map (\<lambda>(video, label). Label_data label) batch"
proof -
  let ?g = "\<lambda>video :: 'm Video.
              \<lparr>shape = T # [C, H, W], elems = concat (map elems (Video_data video))\<rparr>"
  have inner: "th_stack (Video_data video) = Inr (?g video)"
    if "video \<in> set (map fst batch)" for video
  proof -
    from that assms(3) have len: "length (Video_data video) = T"
      and sh: "\<forall>frame \<in> set (Video_data video). shape frame = [C, H, W]" by auto
    from len \<open>T > 0\<close> have "Video_data video \<noteq> []" by auto
    from th_stack_uniform [OF this sh] len show ?thesis by simp
  qed
  have comp: "list_comp (\<lambda>video. th_stack (Video_data video)) (map fst batch) =
                Inr (map ?g (map fst batch))"
    by (rule list_comp_map) (rule inner)
  have ne: "map ?g (map fst batch) \<noteq> []" using assms(1) by simp
  have outer: "th_stack (map ?g (map fst batch)) =
     Inr \<lparr>shape = length (map ?g (map fst batch)) # [T, C, H, W],
          elems = concat (map elems (map ?g (map fst batch)))\<rparr>"
    by (rule th_stack_uniform [OF ne]) auto
  have el: "concat (map elems (map ?g (map fst batch))) =
              concat (map (\<lambda>(video, label). concat (map elems (Video_data video))) batch)"
    by (simp add: comp_def case_prod_unfold)
  show ?thesis
    using assms(1) comp outer el
    by (simp add: collate_def unpack2_def zip_star_def th_tensor_def case_prod_unfold)
qed

theorem collate_shapes_witness:
  "[ex_sample 2 [3, 1, 1] 7, ex_sample 2 [3, 1, 1] 4] \<noteq> [] \<and> (0::nat) < 2 \<and>
   (\<exists>videos_data labels_data.
      collate [ex_sample 2 [3, 1, 1] 7, ex_sample 2 [3, 1, 1] 4] =
        Inr (videos_data, labels_data,
             map fst [ex_sample 2 [3, 1, 1] 7, ex_sample 2 [3, 1, 1] 4],
             map snd [ex_sample 2 [3, 1, 1] 7, ex_sample 2 [3, 1, 1] 4]) \<and>
      shape videos_data = [length [ex_sample 2 [3, 1, 1] 7, ex_sample 2 [3, 1, 1] 4], 2, 3, 1, 1] \<and>
      elems videos_data =
        concat (map (\<lambda>(video, label). concat (map elems (Video_data video)))
          [ex_sample 2 [3, 1, 1] 7, ex_sample 2 [3, 1, 1] 4]) \<and>
      shape labels_data = [length [ex_sample 2 [3, 1, 1] 7, ex_sample 2 [3, 1, 1] 4]] \<and>
      elems labels_data =
        map (\<lambda>(video, label). Label_data label)
          [ex_sample 2 [3, 1, 1] 7, ex_sample 2 [3, 1, 1] 4])"
proof -
  let ?batch = "[ex_sample 2 [3, 1, 1] 7, ex_sample 2 [3, 1, 1] 4]"
  have h1: "?batch \<noteq> []" by simp
  have h2: "(0::nat) < 2" by simp
  have h3: "\<forall>(video, label) \<in> set ?batch.
              length (Video_data video) = 2 \<and>
              (\<forall>frame \<in> set (Video_data video). shape frame = [3, 1, 1])"
    by (simp add: ex_sample_def ex_tensor_def)
  from h1 h2 collate_shapes [OF h1 h2 h3] show ?thesis by blast
qed

text \<open>
  Claim C7 as stated does not hold: \<^verbatim>\<open>collate\<close> makes no shape check of its own and never
  raises \<^verbatim>\<open>ShapeMismatchError\<close>. On a batch whose two samples differ in frame count, and
  on one whose samples differ in frame size, the error is the \<^verbatim>\<open>RuntimeError\<close> of
  \<^verbatim>\<open>th.stack\<close>.
\<close>

theorem collate_mismatch_counterexample:
  "collate [ex_sample 2 [3, 1, 1] 7, ex_sample 1 [3, 1, 1] 4] = Inl RuntimeError \<and>
   collate [ex_sample 2 [3, 1, 1] 7, ex_sample 1 [3, 1, 1] 4] \<noteq> Inl ShapeMismatchError \<and>
   collate [ex_sample 2 [3, 1, 1] 7, ex_sample 2 [3, 2, 2] 4] = Inl RuntimeError \<and>
   collate [ex_sample 2 [3, 1, 1] 7, ex_sample 2 [3, 2, 2] 4] \<noteq> Inl ShapeMismatchError"
  by (simp add: collate_def unpack2_def zip_star_def ex_sample_def ex_tensor_def
        numeral_2_eq_2)

text \<open>
  Claim C7, amended. When two samples of the batch differ in their number of frames, or
  hold frames of different shapes, \<^verbatim>\<open>collate\<close> fails with the \<^verbatim>\<open>RuntimeError\<close> raised by
  \<^verbatim>\<open>th.stack\<close>; nothing is padded or truncated.
\<close>

theorem collate_mismatch_fails:
  fixes batch :: "('m Video \<times> 'm Label) list"
  assumes "(v1, l1) \<in> set batch" and "(v2, l2) \<in> set batch"
    and "length (Video_data v1) \<noteq> length (Video_data v2) \<or>
         (\<exists>f1 \<in> set (Video_data v1). \<exists>f2 \<in> set (Video_data v2). shape f1 \<noteq> shape f2)"
  shows "collate batch = Inl RuntimeError"
proof -
  from assms(1) have ne: "batch \<noteq> []" by auto
  have "\<not> (\<exists>r. collate batch = Inr r)"
  proof
    assume "\<exists>r. collate batch = Inr r"
    then obtain stacked videos_data where
      comp: "list_comp (\<lambda>video. th_stack (Video_data video)) (map fst batch) = Inr stacked"
      and outer: "th_stack stacked = Inr videos_data"
      using ne by (auto simp: collate_def unpack2_def zip_star_def split: sum.splits)
    from list_comp_Inr [OF comp]
    have all2: "list_all2 (\<lambda>x y. th_stack (Video_data x) = Inr y) (map fst batch) stacked" .
    have pick: "\<exists>y \<in> set stacked. th_stack (Video_data v) = Inr y"
      if "v \<in> set (map fst batch)" for v
    proof -
      from that obtain i where i: "i < length (map fst batch)" "map fst batch ! i = v"
        by (auto simp: in_set_conv_nth)
      from list_all2_nthD [OF all2 i(1)] i(2)
      have "th_stack (Video_data v) = Inr (stacked ! i)" by simp
      moreover from list_all2_lengthD [OF all2] i(1) have "stacked ! i \<in> set stacked"
        by simp
      ultimately show ?thesis by blast
    qed
    from assms(1) have "v1 \<in> set (map fst batch)" by force
    from pick [OF this] obtain y1
      where y1: "y1 \<in> set stacked" "th_stack (Video_data v1) = Inr y1" by blast
    from assms(2) have "v2 \<in> set (map fst batch)" by force
    from pick [OF this] obtain y2
      where y2: "y2 \<in> set stacked" "th_stack (Video_data v2) = Inr y2" by blast
    have eq: "shape y1 = shape y2"
      using th_stack_Inr_all [OF outer y1(1)] th_stack_Inr_all [OF outer y2(1)] by simp
    have s1: "shape y1 = length (Video_data v1) # shape (hd (Video_data v1))"
      by (rule th_stack_Inr_shape [OF y1(2)])
    have s2: "shape y2 = length (Video_data v2) # shape (hd (Video_data v2))"
      by (rule th_stack_Inr_shape [OF y2(2)])
    from eq s1 s2 have len: "length (Video_data v1) = length (Video_data v2)"
      and hd: "shape (hd (Video_data v1)) = shape (hd (Video_data v2))" by simp_all
    have "shape f1 = shape f2"
      if "f1 \<in> set (Video_data v1)" "f2 \<in> set (Video_data v2)" for f1 f2
      using th_stack_Inr_all [OF y1(2) that(1)] th_stack_Inr_all [OF y2(2) that(2)] hd
      by simp
    with len have "length (Video_data v1) = length (Video_data v2)"
      and "\<forall>f1 \<in> set (Video_data v1). \<forall>f2 \<in> set (Video_data v2). shape f1 = shape f2"
      by blast+
    with assms(3) show False by blast
  qed
  then obtain e where "collate batch = Inl e" by (cases "collate batch") auto
  with collate_error_nonempty [OF ne] show ?thesis by simp
qed

theorem collate_mismatch_fails_witness:
  "collate [ex_sample 2 [3, 1, 1] 7, ex_sample 1 [3, 1, 1] 4] = Inl RuntimeError"
proof -
  let ?batch = "[ex_sample 2 [3, 1, 1] 7, ex_sample 1 [3, 1, 1] 4]"
  have h1: "(fst (ex_sample 2 [3, 1, 1] 7), snd (ex_sample 2 [3, 1, 1] 7)) \<in> set ?batch"
    by simp
  have h2: "(fst (ex_sample 1 [3, 1, 1] 4), snd (ex_sample 1 [3, 1, 1] 4)) \<in> set ?batch"
    by simp
  have h3: "length (Video_data (fst (ex_sample 2 [3, 1, 1] 7))) \<noteq>
              length (Video_data (fst (ex_sample 1 [3, 1, 1] 4))) \<or>
            (\<exists>f1 \<in> set (Video_data (fst (ex_sample 2 [3, 1, 1] 7))).
               \<exists>f2 \<in> set (Video_data (fst (ex_sample 1 [3, 1, 1] 4))). shape f1 \<noteq> shape f2)"
    by (simp add: ex_sample_def)
  from collate_mismatch_fails [OF h1 h2 h3] show ?thesis .
qed

section \<open>Properties of the keep subsetting\<close>

lemma set_unique: "set (unique xs) = set xs"
  by (induction xs rule: unique.induct) auto

























text \<open>
  The product is the double product: \<^verbatim>\<open>0.7\<close> is the double just below seven tenths,
  \<^verbatim>\<open>round(45 * 0.7)\<close> is 31 and \<^verbatim>\<open>round(5 * 0.7)\<close> is 4, where the exact product of 45 and
  seven tenths would round to 32.
\<close>

lemma cut_off_double_examples:
  "py_float (7 / 10) = PyFloat (3152519739159347 / 4503599627370496)"
  "round_number (py_mul_len 45 (py_float (7 / 10))) = 31"
  "round_number (py_mul_len 5 (py_float (7 / 10))) = 4"
  "round_number (py_mul_len 45 (PyFloat (7 / 10))) = 32"
  by code_simp+





section \<open>Properties of the constructor\<close>

lemma groupby_head1_covers:
  "(i, r) \<in> set tbl \<Longrightarrow> lid r \<notin> set seen \<Longrightarrow>
     \<exists>(j, r') \<in> set tbl. lid r' = lid r \<and> (j, label r') \<in> set (groupby_head1 seen tbl)"
proof (induction tbl arbitrary: seen)
  case Nil
  then show ?case by simp
next
  case (Cons e tbl)
  obtain i0 r0 where e: "e = (i0, r0)" by (cases e)
  show ?case
  proof (cases "lid r0 = lid r")
    case True
    with Cons.prems e show ?thesis by auto
  next
    case False
    with Cons.prems e have mem: "(i, r) \<in> set tbl" by auto
    show ?thesis
    proof (cases "lid r0 \<in> set seen")
      case True
      with Cons.IH [OF mem Cons.prems(2)] e show ?thesis by auto
    next
      case False
      from Cons.prems(2) \<open>lid r0 \<noteq> lid r\<close> have "lid r \<notin> set (lid r0 # seen)" by auto
      from Cons.IH [OF mem this] e False show ?thesis by auto
    qed
  qed
qed

lemma apply_keep_error: "apply_keep k tbl = Inl e \<Longrightarrow> e = ValueError \<or> e = TypeError"
  by (auto simp: apply_keep_def stratified_sample_meta_def pd_concat_verify_def
           split: option.splits if_splits number.splits)

lemma VideoDataset_init_Inr:
  assumes "VideoDataset_init c fs d s tbl = Inr ds"
  shows "0 \<le> c \<and> c \<le> 1" and "setting d = ''train'' \<or> setting d = ''eval''"
    and "apply_keep (keep d) tbl = Inr (meta ds)"
    and "cut ds = c" and "frame_size ds = fs" and "data_opts ds = d" and "sampling_opts ds = s"
    and "lids ds = unique (column_lid tbl)"
    and "lid2labels ds = groupby_head1 [] tbl"
    and "labels2lid ds = reset_set_index (groupby_head1 [] tbl)"
    and "aug_seq ds = claimed_aug_seq 224 (setting d)"
  using assms
  by (auto simp: VideoDataset_init_def Let_def VideoDataset_attrs.defs VideoDataset.defs
                 compose_aug_seq_def claimed_aug_seq_def
           split: if_splits sum.splits)

text \<open>
  The constructor computes \<^verbatim>\<open>lids\<close> and both lookup tables from the full table, before
  the subsetting: whenever it succeeds they are those of the full table, whatever \<^verbatim>\<open>keep\<close>
  is. Hence every class id of the full table, also one whose rows the subsetting removed,
  is still in \<^verbatim>\<open>lids\<close>, and the label string of that class is still in both lookup tables.
\<close>

lemma lookups_from_full_table:
  assumes "VideoDataset_init c fs d s tbl = Inr ds"
  shows "lids ds = unique (column_lid tbl) \<and>
         lid2labels ds = groupby_head1 [] tbl \<and>
         labels2lid ds = reset_set_index (groupby_head1 [] tbl) \<and>
         (l \<in> set (column_lid tbl) \<longrightarrow>
            l \<in> set (lids ds) \<and>
            (\<exists>(j, r) \<in> set tbl. lid r = l \<and> label r \<in> set (map snd (lid2labels ds)) \<and>
                                  label r \<in> set (map fst (labels2lid ds))))"
proof -
  note init = VideoDataset_init_Inr(8,9,10) [OF assms]
  have "l \<in> set (lids ds) \<and>
        (\<exists>(j, r) \<in> set tbl. lid r = l \<and> label r \<in> set (map snd (lid2labels ds)) \<and>
                              label r \<in> set (map fst (labels2lid ds)))"
    if "l \<in> set (column_lid tbl)"
  proof -
    from that obtain i r where ir: "(i, r) \<in> set tbl" "lid r = l"
      by (auto simp: column_lid_def)
    from groupby_head1_covers [OF ir(1), of "[]"] ir(2)
    obtain j r' where r': "(j, r') \<in> set tbl" "lid r' = l"
      and h: "(j, label r') \<in> set (groupby_head1 [] tbl)"
      by auto
    from h have "(label r', j) \<in> set (reset_set_index (groupby_head1 [] tbl))"
      by (force simp: reset_set_index_def)
    then have k: "label r' \<in> set (map fst (labels2lid ds))"
      unfolding init by force
    from h have v: "label r' \<in> set (map snd (lid2labels ds))"
      unfolding init by force
    from that have "l \<in> set (lids ds)" by (simp add: init set_unique)
    with r' k v show ?thesis by blast
  qed
  with init show ?thesis by blast
qed

text \<open>
  Claim C10 on the example table with \<^verbatim>\<open>keep=2\<close>. The subsetting removes the one row of
  class 9. The class id 9 is still in \<^verbatim>\<open>lids\<close>, but it appears in neither lookup table:
  it is no key of \<^verbatim>\<open>lid2labels\<close> and no value of \<^verbatim>\<open>labels2lid\<close>, because
  \<^verbatim>\<open>groupby('lid')['label'].head(1)\<close> keys both by the index labels of the table.
\<close>

theorem removed_class_not_in_lookups:
  "VideoDataset_init 1 224 (ex_opts ''train'' (Some (PyInt 2))) ex_sampling ex_table =
     Inr (ex_dataset ''train'' 224 (Some (PyInt 2)) (take 2 ex_table)) \<and>
   9 \<in> set (column_lid ex_table) \<and>
   9 \<notin> set (column_lid (meta (ex_dataset ''train'' 224 (Some (PyInt 2)) (take 2 ex_table)))) \<and>
   9 \<in> set (lids (ex_dataset ''train'' 224 (Some (PyInt 2)) (take 2 ex_table))) \<and>
   9 \<notin> set (map fst (lid2labels (ex_dataset ''train'' 224 (Some (PyInt 2)) (take 2 ex_table)))) \<and>
   9 \<notin> set (map snd (labels2lid (ex_dataset ''train'' 224 (Some (PyInt 2)) (take 2 ex_table))))"
  by (simp add: VideoDataset_init_def ex_opts_def ex_table_def ex_dataset_def ex_sampling_def
        apply_keep_def iloc_slice0_def reset_set_index_def column_lid_def compose_aug_seq_def
        Let_def VideoDataset_attrs.defs VideoDataset.defs)

text \<open>
  Claim C4 on the example table, built without subsetting. Row 2 has class id 9 and label
  \<open>lifting\<close>, row 1 has class id 5 and label \<open>pushing\<close>. Looking up either class id in
  \<^verbatim>\<open>lid2labels\<close> raises \<^verbatim>\<open>KeyError\<close>, and looking up either label in \<^verbatim>\<open>labels2lid\<close> yields
  the index label of the first row of the class (2 and 0), not the class id: the tables
  are keyed by the index of the metadata table, since \<^verbatim>\<open>groupby('lid')['label'].head(1)\<close>
  keeps the index of the rows it selects.
\<close>

theorem lookups_not_inverse:
  "VideoDataset_init 1 224 (ex_opts ''train'' None) ex_sampling ex_table =
     Inr (ex_dataset ''train'' 224 None ex_table) \<and>
   (2, \<lparr>lid = 9, label = ''lifting''\<rparr>) \<in> set (meta (ex_dataset ''train'' 224 None ex_table)) \<and>
   loc (lid2labels (ex_dataset ''train'' 224 None ex_table)) 9 = Inl KeyError \<and>
   loc (labels2lid (ex_dataset ''train'' 224 None ex_table)) ''lifting'' = Inr [2] \<and>
   (1, \<lparr>lid = 5, label = ''pushing''\<rparr>) \<in> set (meta (ex_dataset ''train'' 224 None ex_table)) \<and>
   loc (lid2labels (ex_dataset ''train'' 224 None ex_table)) 5 = Inl KeyError \<and>
   loc (labels2lid (ex_dataset ''train'' 224 None ex_table)) ''pushing'' = Inr [0] \<and>
   loc (lid2labels (ex_dataset ''train'' 224 None ex_table)) 2 = Inr [''lifting'']"
  by (simp add: VideoDataset_init_def ex_opts_def ex_table_def ex_dataset_def ex_sampling_def
        apply_keep_def reset_set_index_def column_lid_def compose_aug_seq_def loc_def
        Let_def VideoDataset_attrs.defs VideoDataset.defs)

text \<open>
  Claim C5 as stated does not hold: a \<^verbatim>\<open>cut\<close> outside \<open>[0, 1]\<close> and an unknown setting
  fail the two \<^verbatim>\<open>assert\<close> statements, so the error is \<^verbatim>\<open>AssertionError\<close>, not
  \<^verbatim>\<open>ConfigurationError\<close>; and \<^verbatim>\<open>frame_size\<close> is stored without any check, so construction
  succeeds with \<^verbatim>\<open>frame_size\<close> 0 and \<open>- 7\<close>.
\<close>

theorem init_assertions_counterexample:
  "VideoDataset_init 2 224 (ex_opts ''train'' None) ex_sampling ex_table = Inl AssertionError \<and>
   VideoDataset_init 2 224 (ex_opts ''train'' None) ex_sampling ex_table \<noteq> Inl ConfigurationError \<and>
   VideoDataset_init 1 224 (ex_opts ''valid'' None) ex_sampling ex_table = Inl AssertionError \<and>
   VideoDataset_init 1 0 (ex_opts ''train'' None) ex_sampling ex_table =
     Inr (ex_dataset ''train'' 0 None ex_table) \<and>
   VideoDataset_init 1 (- 7) (ex_opts ''eval'' None) ex_sampling ex_table =
     Inr (ex_dataset ''eval'' (- 7) None ex_table)"
  by (simp add: VideoDataset_init_def ex_opts_def ex_table_def ex_dataset_def ex_sampling_def
        apply_keep_def reset_set_index_def column_lid_def compose_aug_seq_def
        Let_def VideoDataset_attrs.defs VideoDataset.defs)

text \<open>
  Claim C5, amended. Construction fails with \<^verbatim>\<open>AssertionError\<close> exactly when \<^verbatim>\<open>cut\<close> is
  outside \<open>[0, 1]\<close> or the setting is neither \<open>train\<close> nor \<open>eval\<close>; it never fails with
  \<^verbatim>\<open>ConfigurationError\<close>; \<^verbatim>\<open>frame_size\<close> is not validated. With a valid \<^verbatim>\<open>cut\<close> and setting
  and no \<^verbatim>\<open>keep\<close>, construction succeeds for every \<^verbatim>\<open>frame_size\<close> and stores the arguments
  and the whole table.
\<close>

theorem init_assertions:
  "(VideoDataset_init c fs d s tbl = Inl AssertionError \<longleftrightarrow>
      c < 0 \<or> 1 < c \<or> (setting d \<noteq> ''train'' \<and> setting d \<noteq> ''eval'')) \<and>
   VideoDataset_init c fs d s tbl \<noteq> Inl ConfigurationError \<and>
   (0 \<le> c \<and> c \<le> 1 \<and> (setting d = ''train'' \<or> setting d = ''eval'') \<and> keep d = None \<longrightarrow>
      (\<exists>ds. VideoDataset_init c fs d s tbl = Inr ds \<and> cut ds = c \<and> frame_size ds = fs \<and>
            meta ds = tbl))"
proof (cases "0 \<le> c \<and> c \<le> 1 \<and> (setting d = ''train'' \<or> setting d = ''eval'')")
  case False
  then have "VideoDataset_init c fs d s tbl = Inl AssertionError"
    by (auto simp: VideoDataset_init_def)
  with False show ?thesis by auto
next
  case True
  show ?thesis
  proof (cases "apply_keep (keep d) tbl")
    case (Inl e)
    with True have "VideoDataset_init c fs d s tbl = Inl e"
      by (auto simp: VideoDataset_init_def Let_def)
    moreover from apply_keep_error [OF Inl] have "e \<noteq> AssertionError" "e \<noteq> ConfigurationError"
      by auto
    moreover from Inl have "keep d \<noteq> None" by (cases "keep d") (auto simp: apply_keep_def)
    ultimately show ?thesis using True by auto
  next
    case (Inr m)
    with True obtain ds where ds: "VideoDataset_init c fs d s tbl = Inr ds"
      by (auto simp: VideoDataset_init_def Let_def)
    from VideoDataset_init_Inr(3,4,5) [OF ds] Inr
    have "cut ds = c" "frame_size ds = fs" "keep d = None \<longrightarrow> meta ds = tbl"
      by (auto simp: apply_keep_def)
    with ds True show ?thesis by auto
  qed
qed

theorem init_assertions_witness:
  "(VideoDataset_init 1 224 (ex_opts ''train'' None) ex_sampling ex_table \<noteq> Inl AssertionError) \<and>
   (\<exists>ds. VideoDataset_init 1 224 (ex_opts ''train'' None) ex_sampling ex_table = Inr ds \<and>
         cut ds = 1 \<and> frame_size ds = 224 \<and> meta ds = ex_table) \<and>
   VideoDataset_init 2 224 (ex_opts ''train'' None) ex_sampling ex_table = Inl AssertionError"
  using init_assertions [of 1 224 "ex_opts ''train'' None" ex_sampling ex_table]
        init_assertions [of 2 224 "ex_opts ''train'' None" ex_sampling ex_table]
  by (simp add: ex_opts_def)

section \<open>Properties of the augmentation\<close>

lemma hwc_to_chw_range:
  assumes "x \<in> set (elems (hwc_to_chw h w c xs))"
  shows "0 \<le> x \<and> x \<le> 1"
proof -
  from assms obtain b :: "8 word" where x: "x = of_nat (unat b) / 255"
    by (auto simp: hwc_to_chw_def)
  have "unat b < 2 ^ 8" using unsigned_less [of b, where ?'a = nat] by simp
  then have "unat b \<le> 255" by simp
  then have le: "(of_nat (unat b) :: rat) \<le> 255" by (metis of_nat_le_iff of_nat_numeral)
  have "0 \<le> (of_nat (unat b) :: rat)" by (rule of_nat_0_le_iff)
  then have "0 \<le> of_nat (unat b) / (255 :: rat)" by (rule divide_nonneg_pos) simp
  moreover from le have "of_nat (unat b) / (255 :: rat) \<le> 1" by (simp add: divide_le_eq_1_pos)
  ultimately show ?thesis unfolding x by blast
qed

lemma to_tensor_range:
  assumes "to_tensor pic = Inr t" and "x \<in> set (elems t)"
  shows "0 \<le> x \<and> x \<le> 1"
  using assms
  by (auto simp: to_tensor_def split: list.splits dest: hwc_to_chw_range)

lemma to_tensor_channel_first:
  "shape pic = [h, w, c] \<Longrightarrow> \<exists>t. to_tensor pic = Inr t \<and> shape t = [c, h, w]"
  by (simp add: to_tensor_def hwc_to_chw_def)

lemma compose_aug_seq_setting_only:
  "compose_aug_seq self = claimed_aug_seq 224 (setting (data_opts self))"
  by (simp add: compose_aug_seq_def claimed_aug_seq_def)

text \<open>
  Claim C8 on a dataset constructed with \<^verbatim>\<open>frame_size\<close> 112. The sequence that
  \<^verbatim>\<open>_compose_aug_seq\<close> builds pads and crops at \<open>224 \<times> 224\<close> in both settings; it is not
  the sequence at \<open>frame_size \<times> frame_size\<close> of the claim. (By
  \<open>compose_aug_seq_setting_only\<close> the sequence is the claimed one for \<^verbatim>\<open>frame_size\<close> 224 and
  depends on the setting alone; by \<open>to_tensor_range\<close> and \<open>to_tensor_channel_first\<close> every
  tensor is channel-first with values in \<open>[0, 1]\<close>.)
\<close>

theorem aug_seq_ignores_frame_size:
  "VideoDataset_init 1 112 (ex_opts ''train'' None) ex_sampling ex_table =
     Inr (ex_dataset ''train'' 112 None ex_table) \<and>
   aug_seq (ex_dataset ''train'' 112 None ex_table) =
     [PadToFixedSize 224 224 Uniform, CropToFixedSize 224 224 Uniform,
      Fliplr (1 / 2), Flipud (1 / 2), Add (- 25) 25, AddToHueAndSaturation (- 25) 25] \<and>
   aug_seq (ex_dataset ''train'' 112 None ex_table) \<noteq> claimed_aug_seq 112 ''train'' \<and>
   VideoDataset_init 1 112 (ex_opts ''eval'' None) ex_sampling ex_table =
     Inr (ex_dataset ''eval'' 112 None ex_table) \<and>
   aug_seq (ex_dataset ''eval'' 112 None ex_table) =
     [PadToFixedSize 224 224 Center, CropToFixedSize 224 224 Center] \<and>
   aug_seq (ex_dataset ''eval'' 112 None ex_table) \<noteq> claimed_aug_seq 112 ''eval''"
  by (simp add: VideoDataset_init_def ex_opts_def ex_table_def ex_dataset_def ex_sampling_def
        apply_keep_def reset_set_index_def column_lid_def compose_aug_seq_def claimed_aug_seq_def
        Let_def VideoDataset_attrs.defs VideoDataset.defs)

lemma augment_image_fst:
  "fst (augment_image lib seq img) = ia_apply lib (children seq) (params_of lib seq) img"
  by (simp add: augment_image_def params_of_def case_prod_unfold Let_def)

lemma augment_image_snd_det: "deterministic seq \<Longrightarrow> snd (augment_image lib seq img) = seq"
  by (simp add: augment_image_def case_prod_unfold Let_def)

lemma applied_params_det:
  "deterministic seq \<Longrightarrow>
     applied_params lib seq frames = replicate (length frames) (params_of lib seq)"
  by (induction frames) (simp_all add: augment_image_snd_det)

lemma augment_frames_det:
  "deterministic seq \<Longrightarrow>
     augment_frames lib seq frames =
       list_comp (\<lambda>frame. to_tensor (ia_apply lib (children seq) (params_of lib seq) frame)) frames"
  by (induction frames) (simp_all add: augment_image_snd_det augment_image_fst cong: sum.case_cong)

lemma to_deterministic_fst:
  "deterministic (fst (to_deterministic lib seq g))"
  "children (fst (to_deterministic lib seq g)) = seq"
  by (simp_all add: to_deterministic_def case_prod_unfold Let_def)

lemma list_comp_length: "list_comp f xs = Inr ys \<Longrightarrow> length ys = length xs"
  by (induction xs arbitrary: ys) (auto split: sum.splits)

lemma aug_fst:
  "fst (aug lib self g video_data) =
     list_comp (\<lambda>frame. to_tensor (ia_apply lib (aug_seq self)
                  (params_of lib (fst (to_deterministic lib (aug_seq self) g))) frame)) video_data"
  using augment_frames_det [OF to_deterministic_fst(1), of lib lib "aug_seq self" g video_data]
  by (simp add: aug_def case_prod_unfold Let_def to_deterministic_fst(2))

lemma aug_output_range:
  assumes "fst (aug lib self g video_data) = Inr ts" and "t \<in> set ts" and "x \<in> set (elems t)"
  shows "0 \<le> x \<and> x \<le> 1"
proof -
  from assms(1) have "list_all2 (\<lambda>frame t. to_tensor (ia_apply lib (aug_seq self)
                  (params_of lib (fst (to_deterministic lib (aug_seq self) g))) frame) = Inr t)
                  video_data ts"
    by (simp add: aug_fst list_comp_Inr)
  with assms(2) obtain pic where "to_tensor pic = Inr t"
    by (auto simp: list_all2_conv_all_nth in_set_conv_nth)
  from to_tensor_range [OF this assms(3)] show ?thesis .
qed

text \<open>
  Claim C2. In one call of \<^verbatim>\<open>aug\<close>, hence of \<^verbatim>\<open>__getitem__\<close>, the augmentation parameters
  are drawn once and replayed: the parameters applied to the frames are one and the same
  value for every frame (so equal for every pair of frames), and each output tensor is
  \<^verbatim>\<open>to_tensor\<close> of its frame transformed with that value. The tensors that
  \<^verbatim>\<open>__getitem__\<close> returns are the result of \<^verbatim>\<open>aug\<close> on the decoded frames of the sample.
\<close>

theorem getitem_same_params:
  "applied_params lib (fst (to_deterministic lib (aug_seq self) g)) video_data =
     replicate (length video_data) (params_of lib (fst (to_deterministic lib (aug_seq self) g))) \<and>
   (i < length video_data \<and> j < length video_data \<longrightarrow>
      applied_params lib (fst (to_deterministic lib (aug_seq self) g)) video_data ! i =
      applied_params lib (fst (to_deterministic lib (aug_seq self) g)) video_data ! j) \<and>
   fst (aug lib self g video_data) =
     list_comp (\<lambda>frame. to_tensor (ia_apply lib (aug_seq self)
                  (params_of lib (fst (to_deterministic lib (aug_seq self) g))) frame)) video_data \<and>
   (getitem lib Video_init self g item = Inr (video, target, g') \<longrightarrow>
      (\<exists>i video_meta frames.
          iloc (meta self) item = Inr (i, video_meta) \<and>
          Video_init video_meta (root_path (data_opts self)) (read_jpeg (data_opts self))
            (cut self) (setting (data_opts self)) (num_segments (sampling_opts self)) = Inr frames \<and>
          fst (aug lib self g frames) = Inr (Video_data video) \<and>
          length (Video_data video) = length frames))"
proof -
  let ?det = "fst (to_deterministic lib (aug_seq self) g)"
  have rep: "applied_params lib ?det video_data =
               replicate (length video_data) (params_of lib ?det)"
    by (rule applied_params_det) (rule to_deterministic_fst)
  have pair: "i < length video_data \<and> j < length video_data \<longrightarrow>
                applied_params lib ?det video_data ! i = applied_params lib ?det video_data ! j"
    by (simp add: rep)
  have item: "\<exists>i video_meta frames.
          iloc (meta self) item = Inr (i, video_meta) \<and>
          Video_init video_meta (root_path (data_opts self)) (read_jpeg (data_opts self))
            (cut self) (setting (data_opts self)) (num_segments (sampling_opts self)) = Inr frames \<and>
          fst (aug lib self g frames) = Inr (Video_data video) \<and>
          length (Video_data video) = length frames"
    if "getitem lib Video_init self g item = Inr (video, target, g')"
  proof -
    from that obtain i video_meta frames where
      a: "iloc (meta self) item = Inr (i, video_meta)"
      and b: "Video_init video_meta (root_path (data_opts self)) (read_jpeg (data_opts self))
            (cut self) (setting (data_opts self)) (num_segments (sampling_opts self)) = Inr frames"
      and c: "fst (aug lib self g frames) = Inr (Video_data video)"
      by (auto simp: getitem_def split: sum.splits prod.splits)
    from c have "length (Video_data video) = length frames"
      by (simp add: aug_fst list_comp_length)
    with a b c show ?thesis by blast
  qed
  from rep pair aug_fst [of lib self g video_data] item show ?thesis by blast
qed

theorem getitem_same_params_witness:
  "applied_params ex_imgaug
     (fst (to_deterministic ex_imgaug (aug_seq (ex_dataset ''train'' 224 None ex_table)) 3))
     [ex_frame 10, ex_frame 20] ! 0 =
   applied_params ex_imgaug
     (fst (to_deterministic ex_imgaug (aug_seq (ex_dataset ''train'' 224 None ex_table)) 3))
     [ex_frame 10, ex_frame 20] ! 1 \<and>
   getitem ex_imgaug ex_Video_init (ex_dataset ''train'' 224 None ex_table) 3 0 =
     Inr (\<lparr>Video_meta = \<lparr>lid = 5, label = ''pushing''\<rparr>,
           Video_data = replicate 4 \<lparr>shape = [1, 1, 1], elems = [13 / 255]\<rparr>\<rparr>,
          \<lparr>Label_meta = \<lparr>lid = 5, label = ''pushing''\<rparr>, Label_data = 5\<rparr>, 4) \<and>
   (\<exists>i video_meta frames.
      iloc (meta (ex_dataset ''train'' 224 None ex_table)) 0 = Inr (i, video_meta) \<and>
      ex_Video_init video_meta (root_path (data_opts (ex_dataset ''train'' 224 None ex_table)))
        (read_jpeg (data_opts (ex_dataset ''train'' 224 None ex_table)))
        (cut (ex_dataset ''train'' 224 None ex_table))
        (setting (data_opts (ex_dataset ''train'' 224 None ex_table)))
        (num_segments (sampling_opts (ex_dataset ''train'' 224 None ex_table))) = Inr frames \<and>
      fst (aug ex_imgaug (ex_dataset ''train'' 224 None ex_table) 3 frames) =
        Inr (replicate 4 \<lparr>shape = [1, 1, 1], elems = [13 / 255]\<rparr>) \<and>
      length (replicate 4 \<lparr>shape = [1 :: nat, 1, 1], elems = [13 / 255 :: rat]\<rparr>) = length frames)"
proof -
  let ?ds = "ex_dataset ''train'' 224 None ex_table"
  let ?video = "\<lparr>Video_meta = \<lparr>lid = 5, label = ''pushing''\<rparr>,
                 Video_data = replicate 4 \<lparr>shape = [1, 1, 1], elems = [13 / 255]\<rparr>\<rparr>"
  let ?target = "\<lparr>Label_meta = \<lparr>lid = 5, label = ''pushing''\<rparr>, Label_data = 5\<rparr>"
  have h: "getitem ex_imgaug ex_Video_init ?ds 3 0 = Inr (?video, ?target, 4)"
    by code_simp
  note T = getitem_same_params [where lib = ex_imgaug and self = ?ds and g = 3
      and video_data = "[ex_frame 10, ex_frame 20]" and i = 0 and j = 1
      and Video_init = ex_Video_init and item = 0 and video = ?video and target = ?target
      and g' = 4]
  have len2: "0 < length [ex_frame 10, ex_frame 20] \<and> 1 < length [ex_frame 10, ex_frame 20]"
    by simp
  have a: "applied_params ex_imgaug (fst (to_deterministic ex_imgaug (aug_seq ?ds) 3))
             [ex_frame 10, ex_frame 20] ! 0 =
           applied_params ex_imgaug (fst (to_deterministic ex_imgaug (aug_seq ?ds) 3))
             [ex_frame 10, ex_frame 20] ! 1"
    by (rule T [THEN conjunct2, THEN conjunct1, THEN mp, OF len2])
  have b: "\<exists>i video_meta frames.
      iloc (meta ?ds) 0 = Inr (i, video_meta) \<and>
      ex_Video_init video_meta (root_path (data_opts ?ds)) (read_jpeg (data_opts ?ds))
        (cut ?ds) (setting (data_opts ?ds)) (num_segments (sampling_opts ?ds)) = Inr frames \<and>
      fst (aug ex_imgaug ?ds 3 frames) = Inr (Video_data ?video) \<and>
      length (Video_data ?video) = length frames"
    by (rule T [THEN conjunct2, THEN conjunct2, THEN conjunct2, THEN mp, OF h])
  have sel: "Video_data ?video = replicate 4 \<lparr>shape = [1, 1, 1], elems = [13 / 255]\<rparr>"
    by (rule Video.select_convs)
  from b have b': "\<exists>i video_meta frames.
      iloc (meta ?ds) 0 = Inr (i, video_meta) \<and>
      ex_Video_init video_meta (root_path (data_opts ?ds)) (read_jpeg (data_opts ?ds))
        (cut ?ds) (setting (data_opts ?ds)) (num_segments (sampling_opts ?ds)) = Inr frames \<and>
      fst (aug ex_imgaug ?ds 3 frames) =
        Inr (replicate 4 \<lparr>shape = [1, 1, 1], elems = [13 / 255]\<rparr>) \<and>
      length (replicate 4 \<lparr>shape = [1 :: nat, 1, 1], elems = [13 / 255 :: rat]\<rparr>) = length frames"
    unfolding sel .
  show ?thesis by (rule conjI [OF a conjI [OF h b']])
qed

text \<open>
  For contrast: an augmenter that is not deterministic advances its generator with every
  call, and the two frames get different parameters.
\<close>

lemma applied_params_not_deterministic:
  "applied_params ex_imgaug \<lparr>children = [], deterministic = False, random_state = 3\<rparr>
     [ex_frame 10, ex_frame 20] = [3, 4]"
  by (simp add: params_of_def augment_image_def ex_imgaug_def)

end
